theory Spec2Isabelle
  imports Complex_Main
begin

section \<open>Values, errors and results\<close>

text \<open>
  The program is two Python files: \<^verbatim>\<open>environment.py\<close> (the classes \<^verbatim>\<open>OrderSpace\<close> and
  \<^verbatim>\<open>Market\<close>) and \<^verbatim>\<open>agent.py\<close> (the class \<^verbatim>\<open>DRQN\<close>). A method that mutates its
  object is a function from the object to an outcome and the object after the call; a
  raised exception is the outcome \<open>Inl e\<close>. Python names that start with an underscore
  are written with the class name in front: \<^verbatim>\<open>Market._reset\<close> is \<open>Market_reset\<close>.

  Floating-point numbers are modelled as reals. The methods below only move numbers
  around, multiply by \<open>1\<close> and \<open>-1\<close>, and in \<^verbatim>\<open>OrderSpace.sample\<close> form
  \<open>1 - r\<close> and \<open>max_amount * u\<close>.
\<close>

datatype error = NotImplementedError | ValueError | AxisError | KeyError | GymError

datatype pyval = PyNone | PyBool bool | PyStr string | PyFloat real

definition bind_err :: "error + 'a \<Rightarrow> ('a \<Rightarrow> error + 'b) \<Rightarrow> error + 'b" where
  "bind_err m f = (case m of Inl e \<Rightarrow> Inl e | Inr x \<Rightarrow> f x)"


section \<open>The numpy arrays used by the environment\<close>

text \<open>
  Only arrays of one and two dimensions occur. \<open>Arr1 xs\<close> has shape \<open>(length xs,)\<close>;
  \<open>Arr2 c rows\<close> has shape \<open>(length rows, c)\<close> and every row has \<open>c\<close> elements.
\<close>

datatype ndarray = Arr1 "real list" | Arr2 nat "real list list"

fun shape :: "ndarray \<Rightarrow> nat list" where
  "shape (Arr1 xs) = [length xs]"
| "shape (Arr2 c rows) = [length rows, c]"

fun ndim :: "ndarray \<Rightarrow> nat" where
  "ndim a = length (shape a)"

text \<open>
  \<^verbatim>\<open>np.array(xss)\<close> on a list of lists of numbers. The empty list gives the
  one-dimensional array of shape \<open>(0,)\<close>; rows of one common length \<open>c\<close> give a
  two-dimensional array of shape \<open>(n, c)\<close>. Rows of different lengths raise ValueError
  (older numpy releases build a one-dimensional array of objects there instead, which the
  \<^verbatim>\<open>np.concatenate\<close> of the same method then rejects: the method raises either way).
\<close>

definition np_array :: "real list list \<Rightarrow> error + ndarray" where
  "np_array xss =
     (case xss of
        [] \<Rightarrow> Inr (Arr1 [])
      | xs # _ \<Rightarrow>
          if list_all (\<lambda>r. length r = length xs) xss
          then Inr (Arr2 (length xs) xss)
          else Inl ValueError)"

text \<open>\<^verbatim>\<open>np.ones((r, c))\<close> and the product of a scalar with an array.\<close>

definition ones :: "nat \<Rightarrow> nat \<Rightarrow> ndarray" where
  "ones r c = Arr2 c (replicate r (replicate c 1))"

fun scalar_times :: "real \<Rightarrow> ndarray \<Rightarrow> ndarray" where
  "scalar_times k (Arr1 xs) = Arr1 (map (\<lambda>x. k * x) xs)"
| "scalar_times k (Arr2 c rows) = Arr2 c (map (map (\<lambda>x. k * x)) rows)"

text \<open>
  \<^verbatim>\<open>np.concatenate((a, b), axis=1)\<close>. The axis is checked against the first array, then
  the number of dimensions of the second against the first, then the lengths of the
  other axis.
\<close>

fun concatenate_axis1 :: "ndarray \<Rightarrow> ndarray \<Rightarrow> error + ndarray" where
  "concatenate_axis1 (Arr1 xs) b = Inl AxisError"
| "concatenate_axis1 (Arr2 c1 rows1) (Arr1 ys) = Inl ValueError"
| "concatenate_axis1 (Arr2 c1 rows1) (Arr2 c2 rows2) =
     (if length rows1 = length rows2
      then Inr (Arr2 (c1 + c2) (map (\<lambda>(r1, r2). r1 @ r2) (zip rows1 rows2)))
      else Inl ValueError)"

text \<open>The rows of the transpose of \<open>c\<close> columns: row \<open>j\<close> is column \<open>j\<close> of the argument.\<close>

fun transposed_rows :: "nat \<Rightarrow> real list list \<Rightarrow> real list list" where
  "transposed_rows 0 rows = []"
| "transposed_rows (Suc c) rows = map hd rows # transposed_rows c (map tl rows)"

fun transpose_array :: "ndarray \<Rightarrow> ndarray" where
  "transpose_array (Arr1 xs) = Arr1 xs"
| "transpose_array (Arr2 c rows) = Arr2 (length rows) (transposed_rows c rows)"

text \<open>\<^verbatim>\<open>np.flip(m, axis)\<close> reverses the order of the elements along one axis.\<close>

fun flip :: "ndarray \<Rightarrow> nat \<Rightarrow> error + ndarray" where
  "flip (Arr1 xs) axis = (if axis = 0 then Inr (Arr1 (rev xs)) else Inl AxisError)"
| "flip (Arr2 c rows) axis =
     (if axis = 0 then Inr (Arr2 c (rev rows))
      else if axis = 1 then Inr (Arr2 c (map rev rows))
      else Inl AxisError)"

text \<open>\<^verbatim>\<open>np.flipud(m)\<close> is \<^verbatim>\<open>m[::-1, ...]\<close>: the rows in reverse order.\<close>

fun flipud :: "ndarray \<Rightarrow> ndarray" where
  "flipud (Arr1 xs) = Arr1 (rev xs)"
| "flipud (Arr2 c rows) = Arr2 c (rev rows)"

text \<open>
  \<^verbatim>\<open>np.rot90(m, k)\<close> with the default axes \<open>(0, 1)\<close>: an array of fewer than two
  dimensions raises ValueError; otherwise, with \<open>k\<close> reduced modulo 4, the result is
  \<open>m\<close>, \<open>transpose(flip(m, 1))\<close>, \<open>flip(flip(m, 0), 1)\<close> or \<open>flip(transpose(m), 1)\<close>.
\<close>

definition rot90 :: "ndarray \<Rightarrow> nat \<Rightarrow> error + ndarray" where
  "rot90 m k =
     (if ndim m < 2 then Inl ValueError
      else if k mod 4 = 0 then Inr m
      else if k mod 4 = 2 then bind_err (flip m 0) (\<lambda>m'. flip m' 1)
      else if k mod 4 = 1 then bind_err (flip m 1) (\<lambda>m'. Inr (transpose_array m'))
      else flip (transpose_array m) 1)"

text \<open>The columns of a two-dimensional array, each read from row 0 downwards.\<close>

fun rows_of :: "ndarray \<Rightarrow> real list list" where
  "rows_of (Arr1 xs) = [xs]"
| "rows_of (Arr2 c rows) = rows"



section \<open>The exchange\<close>

text \<open>
  The exchange object is given to \<^verbatim>\<open>Market.__init__\<close> by the caller. The program calls
  two of its methods, \<^verbatim>\<open>load_markets()\<close> and \<^verbatim>\<open>fetch_order_book(symbol)\<close>. What they
  answer is not the program's: \<open>market_table\<close> is the answer of \<^verbatim>\<open>load_markets\<close> and
  \<open>book_feed i s\<close> the order book answered for symbol \<open>s\<close> after \<open>i\<close> earlier calls.
  \<open>calls\<close> records every method call made on the object, oldest first. An order book is
  the dictionary's two entries that the program reads, \<^verbatim>\<open>'bids'\<close> and \<^verbatim>\<open>'asks'\<close>.
\<close>

datatype api_call = LoadMarkets | FetchOrderBook string

record order_book =
  bids :: "real list list"
  asks :: "real list list"

record exchange =
  market_table :: "string list"
  book_feed :: "nat \<Rightarrow> string \<Rightarrow> order_book"
  calls :: "api_call list"

definition load_markets :: "exchange \<Rightarrow> string list \<times> exchange" where
  "load_markets ex = (market_table ex, ex\<lparr>calls := calls ex @ [LoadMarkets]\<rparr>)"

definition fetch_order_book :: "exchange \<Rightarrow> string \<Rightarrow> order_book \<times> exchange" where
  "fetch_order_book ex s =
     (book_feed ex (length (calls ex)) s, ex\<lparr>calls := calls ex @ [FetchOrderBook s]\<rparr>)"


section \<open>OrderSpace\<close>

text \<open>
  The attributes \<^verbatim>\<open>place_order\<close>, \<^verbatim>\<open>type\<close>, \<^verbatim>\<open>side\<close>, \<^verbatim>\<open>amount\<close> and \<^verbatim>\<open>price\<close>
  exist only once \<^verbatim>\<open>sample\<close> has assigned them: \<open>None\<close> is an attribute not yet set.
\<close>

record OrderSpace =
  max_amount :: real
  place_order :: "bool option"
  type :: "string option"
  side :: "string option"
  amount :: "real option"
  price :: "real option"

definition side_sign :: "string \<rightharpoonup> int" where
  "side_sign = [''buy'' \<mapsto> - 1, ''sell'' \<mapsto> 1]"

definition OrderSpace_init :: "real \<Rightarrow> OrderSpace" where
  "OrderSpace_init m =
     \<lparr>max_amount = m, place_order = None, type = None, side = None, amount = None,
      price = None\<rparr>"

text \<open>
  The five draws that one call of \<^verbatim>\<open>sample\<close> takes from numpy's global generator, in
  the order of the calls: the index chosen by each \<^verbatim>\<open>np.random.choice\<close> (an index of
  the list given to it), the \<open>[0, 1)\<close> sample that \<^verbatim>\<open>np.random.uniform\<close> scales, and the
  result of \<^verbatim>\<open>np.random.random_sample()\<close>, also in \<open>[0, 1)\<close>.
\<close>

record draws =
  place_order_index :: nat
  type_index :: nat
  side_index :: nat
  amount_sample :: real
  price_sample :: real

definition draws_ok :: "draws \<Rightarrow> bool" where
  "draws_ok d \<longleftrightarrow>
     place_order_index d < 2 \<and> type_index d < 2 \<and> side_index d < 2 \<and>
     0 \<le> amount_sample d \<and> amount_sample d < 1 \<and>
     0 \<le> price_sample d \<and> price_sample d < 1"

definition choice :: "'a list \<Rightarrow> nat \<Rightarrow> 'a" where
  "choice a i = a ! i"

definition uniform :: "real \<Rightarrow> real \<Rightarrow> real \<Rightarrow> real" where
  "uniform low high u = low + (high - low) * u"

definition OrderSpace_sample :: "draws \<Rightarrow> OrderSpace \<Rightarrow> (error + pyval list) \<times> OrderSpace" where
  "OrderSpace_sample d self =
     (let po = choice [True, False] (place_order_index d);
          ty = choice [''market'', ''limit''] (type_index d);
          sd = choice [''buy'', ''sell''] (side_index d);
          am = uniform 0 (max_amount self) (amount_sample d);
          self = self\<lparr>place_order := Some po, type := Some ty, side := Some sd,
                      amount := Some am\<rparr>
      in case side_sign sd of
           None \<Rightarrow> (Inl KeyError, self)
         | Some sg \<Rightarrow>
             (let pr = real_of_int sg * (1 - price_sample d)
              in (Inr [PyBool po, PyStr ty, PyStr sd, PyFloat am, PyFloat pr],
                  self\<lparr>price := Some pr\<rparr>)))"

definition OrderSpace_contains :: "OrderSpace \<Rightarrow> 'a \<Rightarrow> (error + bool) \<times> OrderSpace" where
  "OrderSpace_contains self x = (Inl NotImplementedError, self)"

definition OrderSpace_to_jsonable :: "OrderSpace \<Rightarrow> 'a \<Rightarrow> (error + pyval) \<times> OrderSpace" where
  "OrderSpace_to_jsonable self sample_n = (Inl NotImplementedError, self)"

definition OrderSpace_from_jsonable :: "OrderSpace \<Rightarrow> 'a \<Rightarrow> (error + pyval) \<times> OrderSpace" where
  "OrderSpace_from_jsonable self sample_n = (Inl NotImplementedError, self)"


section \<open>Seeding\<close>

text \<open>
  \<^verbatim>\<open>gym.utils.seeding.np_random(seed)\<close>, the library function that \<^verbatim>\<open>Market._seed\<close>
  calls, as it is in the gym releases whose \<^verbatim>\<open>Env.seed\<close> dispatches to \<^verbatim>\<open>_seed\<close>: a
  seed that is given and is not a non-negative integer raises \<^verbatim>\<open>gym.error.Error\<close>;
  otherwise \<^verbatim>\<open>create_seed\<close> takes 8 bytes of \<^verbatim>\<open>os.urandom\<close> as the seed when none is
  given and reduces a given integer modulo \<open>2^64\<close>, and the generator is a
  \<^verbatim>\<open>RandomState\<close> seeded from a hash of that seed. \<open>urandom\<close> is the number read from
  \<^verbatim>\<open>os.urandom\<close>; the generator is identified by the seed it was made from.
\<close>

datatype RandomState = RandomState int

definition create_seed :: "int \<Rightarrow> int option \<Rightarrow> int" where
  "create_seed urandom a = (case a of None \<Rightarrow> urandom | Some n \<Rightarrow> n mod 2 ^ 64)"

definition seeding_np_random :: "int \<Rightarrow> int option \<Rightarrow> error + (RandomState \<times> int)" where
  "seeding_np_random urandom seed =
     (case seed of
        None \<Rightarrow> (let s = create_seed urandom None in Inr (RandomState s, s))
      | Some n \<Rightarrow>
          if \<not> 0 \<le> n then Inl GymError
          else (let s = create_seed urandom (Some n) in Inr (RandomState s, s)))"


section \<open>Market\<close>

text \<open>
  \<^verbatim>\<open>Box(low, high)\<close>; an upper bound \<open>None\<close> is \<^verbatim>\<open>np.inf\<close>. The attributes
  \<^verbatim>\<open>np_random\<close> and \<^verbatim>\<open>state\<close> are \<open>None\<close> until \<^verbatim>\<open>_seed\<close> and \<^verbatim>\<open>_reset\<close> assign them.
\<close>

record Box =
  low :: "real list"
  high :: "real option list"

record Market =
  exchange :: exchange
  markets :: "string list"
  symbol :: string
  max_amount :: real
  action_space :: OrderSpace
  observation_space :: Box
  np_random :: "RandomState option"
  state :: "ndarray option"

text \<open>\<^verbatim>\<open>_step\<close>: the body is \<^verbatim>\<open>pass\<close>.\<close>

definition Market_step :: "Market \<Rightarrow> 'a \<Rightarrow> (error + pyval) \<times> Market" where
  "Market_step self action = (Inr PyNone, self)"

text \<open>
  Lines 156 to 173 of \<^verbatim>\<open>_reset\<close>: the array computed from the fetched order book. Each
  step that can raise is bound in the order of the source.
\<close>

definition reset_array :: "order_book \<Rightarrow> error + ndarray" where
  "reset_array order_book =
     bind_err (np_array (bids order_book)) (\<lambda>bids_arr.
     bind_err (np_array (asks order_book)) (\<lambda>asks_arr.
     let bid_sign = scalar_times (- 1) (ones (length (bids order_book)) 1);
         ask_sign = ones (length (asks order_book)) 1
     in
     bind_err (concatenate_axis1 bids_arr bid_sign) (\<lambda>bids_with_sign.
     bind_err (concatenate_axis1 asks_arr ask_sign) (\<lambda>asks_with_sign.
     bind_err (rot90 bids_with_sign 3) (\<lambda>rotated.
     let bids_with_sign = flipud rotated in
     bind_err (rot90 asks_with_sign 1) (\<lambda>asks_with_sign.
     concatenate_axis1 bids_with_sign asks_with_sign))))))"

text \<open>
  \<^verbatim>\<open>_reset\<close>: fetch the order book for the environment's symbol, compute the array,
  assign it to \<^verbatim>\<open>self.state\<close> and return it. An exception leaves \<^verbatim>\<open>self.state\<close> as it
  was; the call on the exchange has been made by then.
\<close>

definition Market_reset :: "Market \<Rightarrow> (error + ndarray) \<times> Market" where
  "Market_reset self =
     (let (order_book, ex) = fetch_order_book (exchange self) (symbol self);
          self = self\<lparr>exchange := ex\<rparr>
      in case reset_array order_book of
           Inl e \<Rightarrow> (Inl e, self)
         | Inr a \<Rightarrow> (Inr a, self\<lparr>state := Some a\<rparr>))"

text \<open>\<^verbatim>\<open>_seed\<close>: \<^verbatim>\<open>self.np_random, seed = seeding.np_random(seed); return [seed]\<close>.\<close>

definition Market_seed :: "int \<Rightarrow> Market \<Rightarrow> int option \<Rightarrow> (error + int list) \<times> Market" where
  "Market_seed urandom self seed =
     (case seeding_np_random urandom seed of
        Inl e \<Rightarrow> (Inl e, self)
      | Inr (rng, s) \<Rightarrow> (Inr [s], self\<lparr>np_random := Some rng\<rparr>))"

text \<open>
  \<^verbatim>\<open>__init__\<close>. \<^verbatim>\<open>self.seed()\<close> and \<^verbatim>\<open>self.reset()\<close> are gym's \<^verbatim>\<open>Env.seed\<close> and
  \<^verbatim>\<open>Env.reset\<close>, which call \<^verbatim>\<open>self._seed(None)\<close> and \<^verbatim>\<open>self._reset()\<close>. When the
  constructor raises there is no environment; the exchange, which is the caller's object,
  is returned in both cases.
\<close>

definition Market_init :: "int \<Rightarrow> exchange \<Rightarrow> string \<Rightarrow> (error + Market) \<times> exchange" where
  "Market_init urandom ex s =
     (let (mk, ex) = load_markets ex;
          self = \<lparr>exchange = ex, markets = mk, symbol = s, max_amount = 1,
                  action_space = OrderSpace_init 1,
                  observation_space = \<lparr>low = [0, 0, 0], high = [None, None, None]\<rparr>,
                  np_random = None, state = None\<rparr>
      in case Market_seed urandom self None of
           (Inl e, self) \<Rightarrow> (Inl e, exchange self)
         | (Inr seeds, self) \<Rightarrow>
             (case Market_reset self of
                (Inl e, self) \<Rightarrow> (Inl e, exchange self)
              | (Inr obs, self) \<Rightarrow> (Inr self, exchange self)))"


section \<open>DRQN\<close>

text \<open>The agent has no attributes; the bodies of all four methods are \<^verbatim>\<open>pass\<close>.\<close>

datatype DRQN = DRQN

definition DRQN_train :: "DRQN \<Rightarrow> nat \<Rightarrow> nat \<Rightarrow> (error + pyval) \<times> DRQN" where
  "DRQN_train self n_epochs batch_size = (Inr PyNone, self)"

definition DRQN_play :: "DRQN \<Rightarrow> nat \<Rightarrow> (error + pyval) \<times> DRQN" where
  "DRQN_play self n_epochs = (Inr PyNone, self)"


section \<open>Concrete inputs\<close>

definition example_book :: order_book where
  "example_book = \<lparr>bids = [[2, 5], [1, 7]], asks = [[3, 4], [4, 6]]\<rparr>"

definition example_exchange :: "order_book \<Rightarrow> exchange" where
  "example_exchange b = \<lparr>market_table = [''BTC/USD''], book_feed = (\<lambda>i s. b), calls = []\<rparr>"

definition example_market :: "order_book \<Rightarrow> Market" where
  "example_market b =
     \<lparr>exchange = example_exchange b, markets = [''BTC/USD''], symbol = ''BTC/USD'',
      max_amount = 1, action_space = OrderSpace_init 1,
      observation_space = \<lparr>low = [0, 0, 0], high = [None, None, None]\<rparr>,
      np_random = None, state = None\<rparr>"


definition example_draws :: draws where
  "example_draws =
     \<lparr>place_order_index = 0, type_index = 1, side_index = 0, amount_sample = 1 / 2,
      price_sample = 1 / 4\<rparr>"


definition triple_book :: order_book where
  "triple_book = \<lparr>bids = [[1, 2, 3]], asks = [[4, 5, 6]]\<rparr>"

definition no_bids_book :: order_book where
  "no_bids_book = \<lparr>bids = [], asks = [[3, 4]]\<rparr>"


section \<open>Predicates on order books\<close>

text \<open>
  An entry of an order book is a list \<^verbatim>\<open>[price, quantity]\<close>. \<open>pair_entries\<close> holds of
  a non-empty list of such pairs; \<open>uniform_rows\<close> of a non-empty list of entries of one
  common length, whatever it is. \<open>fetched_book self\<close> is the order book that the
  exchange answers to the next \<^verbatim>\<open>_reset\<close> of \<open>self\<close>.
\<close>

definition entry_price :: "real list \<Rightarrow> real" where
  "entry_price r = r ! 0"

definition entry_quantity :: "real list \<Rightarrow> real" where
  "entry_quantity r = r ! 1"

definition pair_entries :: "real list list \<Rightarrow> bool" where
  "pair_entries xss \<longleftrightarrow> xss \<noteq> [] \<and> list_all (\<lambda>r. length r = 2) xss"

definition uniform_rows :: "real list list \<Rightarrow> bool" where
  "uniform_rows xss \<longleftrightarrow> xss \<noteq> [] \<and> list_all (\<lambda>r. length r = length (hd xss)) xss"


definition fetched_book :: "Market \<Rightarrow> order_book" where
  "fetched_book self = fst (fetch_order_book (exchange self) (symbol self))"


section \<open>The array operations on well-formed input\<close>

lemma length_transposed_rows: "length (transposed_rows c rows) = c"
  by (induction c arbitrary: rows) simp_all

lemma zip_replicate_append:
  "map (\<lambda>(r1, r2). r1 @ r2) (zip xs (replicate (length xs) ys)) = map (\<lambda>r. r @ ys) xs"
  by (induction xs) simp_all

lemma np_array_cases:
  "np_array xss =
     (if xss = [] then Inr (Arr1 [])
      else if list_all (\<lambda>r. length r = length (hd xss)) xss
           then Inr (Arr2 (length (hd xss)) xss)
           else Inl ValueError)"
  by (cases xss) (simp_all add: np_array_def)

lemma np_array_uniform:
  "uniform_rows xss \<Longrightarrow> np_array xss = Inr (Arr2 (length (hd xss)) xss)"
  by (simp add: uniform_rows_def np_array_cases)

lemma concat_sign:
  "concatenate_axis1 (Arr2 c xs) (scalar_times k (ones (length xs) 1)) =
     Inr (Arr2 (Suc c) (map (\<lambda>r. r @ [k]) xs))"
  by (simp add: ones_def zip_replicate_append)

lemma concat_ones:
  "concatenate_axis1 (Arr2 c xs) (ones (length xs) 1) =
     Inr (Arr2 (Suc c) (map (\<lambda>r. r @ [1]) xs))"
  by (simp add: ones_def zip_replicate_append)

lemma rot90_3:
  "rot90 (Arr2 c rows) 3 = Inr (Arr2 (length rows) (map rev (transposed_rows c rows)))"
  by (simp add: rot90_def)

lemma rot90_1:
  "rot90 (Arr2 c rows) 1 = Inr (Arr2 (length rows) (transposed_rows c (map rev rows)))"
  by (simp add: rot90_def bind_err_def)

lemma reset_array_uniform:
  assumes "uniform_rows (bids ob)" "uniform_rows (asks ob)"
  shows "reset_array ob =
     concatenate_axis1
       (Arr2 (length (bids ob))
          (rev (map rev (transposed_rows (Suc (length (hd (bids ob))))
                           (map (\<lambda>r. r @ [- 1]) (bids ob))))))
       (Arr2 (length (asks ob))
          (transposed_rows (Suc (length (hd (asks ob))))
             (map rev (map (\<lambda>r. r @ [1]) (asks ob)))))"
  by (simp only: reset_array_def np_array_uniform [OF assms(1)] np_array_uniform [OF assms(2)]
       bind_err_def sum.case Let_def concat_sign concat_ones rot90_3 rot90_1 flipud.simps
       length_map)

lemma reset_array_fails:
  "\<not> uniform_rows (bids ob) \<or> \<not> uniform_rows (asks ob) \<Longrightarrow> \<exists>e. reset_array ob = Inl e"
  by (auto simp add: reset_array_def uniform_rows_def np_array_cases bind_err_def Let_def
        split: sum.splits)

lemma reset_array_succeeds_iff:
  "(\<exists>a. reset_array ob = Inr a) \<longleftrightarrow>
     uniform_rows (bids ob) \<and> uniform_rows (asks ob) \<and>
     length (hd (bids ob)) = length (hd (asks ob))"
proof (cases "uniform_rows (bids ob) \<and> uniform_rows (asks ob)")
  case True
  then show ?thesis
    by (simp add: reset_array_uniform length_transposed_rows del: transposed_rows.simps)
next
  case False
  then have "\<exists>e. reset_array ob = Inl e"
    using reset_array_fails by blast
  with False show ?thesis by auto
qed

lemma pair_entries_uniform: "pair_entries xss \<Longrightarrow> uniform_rows xss \<and> length (hd xss) = 2"
  by (cases xss) (simp_all add: pair_entries_def uniform_rows_def)

lemma transposed_rows_signed:
  "list_all (\<lambda>r. length r = 2) xs \<Longrightarrow>
     transposed_rows (Suc 2) (map (\<lambda>r. r @ [s]) xs) =
       [map entry_price xs, map entry_quantity xs, map (\<lambda>r. s) xs]"
  by (induction xs)
     (auto simp add: numeral_2_eq_2 length_Suc_conv entry_price_def entry_quantity_def)

lemma transposed_rows_signed_rev:
  "list_all (\<lambda>r. length r = 2) xs \<Longrightarrow>
     transposed_rows (Suc 2) (map rev (map (\<lambda>r. r @ [s]) xs)) =
       [map (\<lambda>r. s) xs, map entry_quantity xs, map entry_price xs]"
  by (induction xs)
     (auto simp add: numeral_2_eq_2 length_Suc_conv entry_price_def entry_quantity_def)

lemma reset_array_pairs:
  assumes "pair_entries (bids ob)" "pair_entries (asks ob)"
  shows "reset_array ob =
     Inr (Arr2 (length (bids ob) + length (asks ob))
       [map (\<lambda>r. - 1) (rev (bids ob)) @ map (\<lambda>r. 1) (asks ob),
        map entry_quantity (rev (bids ob)) @ map entry_quantity (asks ob),
        map entry_price (rev (bids ob)) @ map entry_price (asks ob)])"
proof -
  from assms have u: "uniform_rows (bids ob)" "uniform_rows (asks ob)"
    and l: "length (hd (bids ob)) = 2" "length (hd (asks ob)) = 2"
    and p: "list_all (\<lambda>r. length r = 2) (bids ob)" "list_all (\<lambda>r. length r = 2) (asks ob)"
    by (simp_all add: pair_entries_uniform) (simp_all add: pair_entries_def)
  show ?thesis
    by (simp only: reset_array_uniform [OF u] l transposed_rows_signed [OF p(1)]
          transposed_rows_signed_rev [OF p(2)])
       (simp add: rev_map)
qed



section \<open>What a reset returns and what it changes\<close>

lemma fst_Market_reset: "fst (Market_reset self) = reset_array (fetched_book self)"
  by (simp add: Market_reset_def fetched_book_def Let_def split: prod.splits sum.splits)

lemma state_Market_reset:
  "state (snd (Market_reset self)) =
     (case reset_array (fetched_book self) of Inl e \<Rightarrow> state self | Inr a \<Rightarrow> Some a)"
  by (simp add: Market_reset_def fetched_book_def Let_def split: prod.splits sum.splits)

lemma exchange_Market_reset:
  "exchange (snd (Market_reset self)) = snd (fetch_order_book (exchange self) (symbol self))"
  by (simp add: Market_reset_def Let_def split: prod.splits sum.splits)

lemma example_fetched_book: "fetched_book (example_market b) = b"
  by (simp add: fetched_book_def fetch_order_book_def example_market_def example_exchange_def)

lemma example_book_pairs:
  "pair_entries (bids example_book)" "pair_entries (asks example_book)"
  by (simp_all add: pair_entries_def example_book_def)




section \<open>The observation returned by a reset\<close>





lemma example_reset_array:
  "reset_array example_book = Inr (Arr2 4 [[- 1, - 1, 1, 1], [7, 5, 4, 6], [1, 2, 3, 4]])"
  by (simp add: reset_array_def example_book_def np_array_def bind_err_def ones_def rot90_def)



text \<open>
  C2. For a fetched order book of \<open>n\<close> bids and \<open>m\<close> asks, each a pair and
  \<open>n, m \<ge> 1\<close>, the array returned by \<^verbatim>\<open>_reset\<close> has shape \<open>(3, n + m)\<close>: it
  has 3 rows, and every row has \<open>n + m\<close> elements, one per entry of the order book.
\<close>

theorem reset_shape:
  assumes "pair_entries (bids (fetched_book self))"
    and "pair_entries (asks (fetched_book self))"
  shows "\<exists>a. fst (Market_reset self) = Inr a \<and>
           shape a = [3, length (bids (fetched_book self)) + length (asks (fetched_book self))] \<and>
           length (rows_of a) = 3 \<and>
           (\<forall>r \<in> set (rows_of a).
              length r = length (bids (fetched_book self)) + length (asks (fetched_book self)))"
  by (simp add: fst_Market_reset reset_array_pairs [OF assms])

theorem reset_shape_witness:
  "pair_entries (bids (fetched_book (example_market example_book))) \<and>
   pair_entries (asks (fetched_book (example_market example_book))) \<and>
   (\<exists>a. fst (Market_reset (example_market example_book)) = Inr a \<and> shape a = [3, 4] \<and>
        length (rows_of a) = 3 \<and> (\<forall>r \<in> set (rows_of a). length r = 4))"
proof -
  have b: "pair_entries (bids (fetched_book (example_market example_book)))"
    and a: "pair_entries (asks (fetched_book (example_market example_book)))"
    by (simp_all add: example_fetched_book example_book_pairs)
  have n: "length (bids (fetched_book (example_market example_book))) +
           length (asks (fetched_book (example_market example_book))) = 4"
    by (simp add: example_fetched_book example_book_def)
  show ?thesis
    using reset_shape [OF b a] b a unfolding n by blast
qed

text \<open>
  C8. If the bids are in descending order of price, the asks in ascending order of price,
  and no bid price exceeds an ask price, then the price row of the returned array (row 2)
  is in ascending order: it is the bid prices reversed followed by the ask prices, and
  the sign row has the bids' \<open>-1\<close> in the first columns and the asks' \<open>+1\<close> after them.
\<close>

theorem reset_price_row_ascending:
  assumes "pair_entries (bids (fetched_book self))"
    and "pair_entries (asks (fetched_book self))"
    and "sorted_wrt (\<lambda>x y. x \<ge> y) (map entry_price (bids (fetched_book self)))"
    and "sorted (map entry_price (asks (fetched_book self)))"
    and "\<forall>b \<in> set (bids (fetched_book self)). \<forall>a \<in> set (asks (fetched_book self)).
           entry_price b \<le> entry_price a"
  shows "\<exists>a. fst (Market_reset self) = Inr a \<and>
           sorted (rows_of a ! 2) \<and>
           rows_of a ! 2 = rev (map entry_price (bids (fetched_book self))) @
                           map entry_price (asks (fetched_book self)) \<and>
           rows_of a ! 0 = replicate (length (bids (fetched_book self))) (- 1) @
                           replicate (length (asks (fetched_book self))) 1"
proof -
  have "sorted (rev (map entry_price (bids (fetched_book self))))"
    using assms(3) by (simp add: sorted_wrt_rev)
  then have "sorted (rev (map entry_price (bids (fetched_book self))) @
                     map entry_price (asks (fetched_book self)))"
    using assms(4,5) by (auto simp add: sorted_append)
  then show ?thesis
    by (simp add: fst_Market_reset reset_array_pairs [OF assms(1,2)] rev_map
          map_replicate_const)
qed

theorem reset_price_row_ascending_witness:
  "pair_entries (bids (fetched_book (example_market example_book))) \<and>
   pair_entries (asks (fetched_book (example_market example_book))) \<and>
   sorted_wrt (\<lambda>x y. x \<ge> y) (map entry_price (bids (fetched_book (example_market example_book)))) \<and>
   sorted (map entry_price (asks (fetched_book (example_market example_book)))) \<and>
   (\<exists>a. fst (Market_reset (example_market example_book)) = Inr a \<and>
        sorted (rows_of a ! 2) \<and> rows_of a ! 2 = [1, 2, 3, 4] \<and>
        rows_of a ! 0 = [- 1, - 1, 1, 1])"
proof -
  have b: "pair_entries (bids (fetched_book (example_market example_book)))"
    and a: "pair_entries (asks (fetched_book (example_market example_book)))"
    by (simp_all add: example_fetched_book example_book_pairs)
  have d: "sorted_wrt (\<lambda>x y. x \<ge> y)
             (map entry_price (bids (fetched_book (example_market example_book))))"
    and u: "sorted (map entry_price (asks (fetched_book (example_market example_book))))"
    and c: "\<forall>b \<in> set (bids (fetched_book (example_market example_book))).
            \<forall>a \<in> set (asks (fetched_book (example_market example_book))).
              entry_price b \<le> entry_price a"
    by (simp_all add: example_fetched_book example_book_def entry_price_def)
  have p: "rev (map entry_price (bids (fetched_book (example_market example_book)))) @
           map entry_price (asks (fetched_book (example_market example_book))) = [1, 2, 3, 4]"
    by (simp add: example_fetched_book example_book_def entry_price_def)
  have s: "replicate (length (bids (fetched_book (example_market example_book)))) (- 1) @
           replicate (length (asks (fetched_book (example_market example_book)))) 1 =
           [- 1, - 1, 1, 1 :: real]"
    by (simp add: example_fetched_book example_book_def)
  show ?thesis
    using reset_price_row_ascending [OF b a d u c] b a d u unfolding p s by blast
qed



section \<open>Resets, steps and stubs\<close>

lemma example_fetched_book_state: "fetched_book ((example_market b)\<lparr>state := s\<rparr>) = b"
  by (simp add: fetched_book_def fetch_order_book_def example_market_def example_exchange_def)

lemma no_bids_reset_array: "reset_array no_bids_book = Inl AxisError"
  by (simp add: reset_array_def no_bids_book_def np_array_def bind_err_def)

text \<open>
  C3 (as the code has it). Two invocations of \<^verbatim>\<open>_reset\<close> to which the exchange answers
  the same order book have the same outcome, whatever the two environments were before.
  Either both return the same array, which is then the \<^verbatim>\<open>self.state\<close> of both, or
  both raise the same error and each \<^verbatim>\<open>self.state\<close> stays what it was before the call.
\<close>

theorem reset_depends_on_book_only:
  assumes "fetched_book e1 = fetched_book e2"
  shows "fst (Market_reset e1) = fst (Market_reset e2) \<and>
         (\<forall>obs. fst (Market_reset e1) = Inr obs \<longrightarrow>
            state (snd (Market_reset e1)) = Some obs \<and>
            state (snd (Market_reset e2)) = Some obs) \<and>
         (\<forall>e. fst (Market_reset e1) = Inl e \<longrightarrow>
            state (snd (Market_reset e1)) = state e1 \<and>
            state (snd (Market_reset e2)) = state e2)"
  using assms by (simp add: fst_Market_reset state_Market_reset)

theorem reset_depends_on_book_only_witness:
  "fetched_book (example_market example_book) =
     fetched_book ((example_market example_book)\<lparr>state := Some (Arr1 [9])\<rparr>) \<and>
   fst (Market_reset (example_market example_book)) =
     fst (Market_reset ((example_market example_book)\<lparr>state := Some (Arr1 [9])\<rparr>)) \<and>
   state (snd (Market_reset (example_market example_book))) =
     Some (Arr2 4 [[- 1, - 1, 1, 1], [7, 5, 4, 6], [1, 2, 3, 4]]) \<and>
   state (snd (Market_reset ((example_market example_book)\<lparr>state := Some (Arr1 [9])\<rparr>))) =
     Some (Arr2 4 [[- 1, - 1, 1, 1], [7, 5, 4, 6], [1, 2, 3, 4]]) \<and>
   fetched_book (example_market no_bids_book) =
     fetched_book ((example_market no_bids_book)\<lparr>state := Some (Arr1 [9])\<rparr>) \<and>
   fst (Market_reset (example_market no_bids_book)) = Inl AxisError \<and>
   fst (Market_reset ((example_market no_bids_book)\<lparr>state := Some (Arr1 [9])\<rparr>)) =
     Inl AxisError \<and>
   state (snd (Market_reset (example_market no_bids_book))) = None \<and>
   state (snd (Market_reset ((example_market no_bids_book)\<lparr>state := Some (Arr1 [9])\<rparr>))) =
     Some (Arr1 [9])"
proof -
  have h: "fetched_book (example_market example_book) =
     fetched_book ((example_market example_book)\<lparr>state := Some (Arr1 [9])\<rparr>)"
    by (simp add: example_fetched_book example_fetched_book_state)
  have r: "fst (Market_reset (example_market example_book)) =
     Inr (Arr2 4 [[- 1, - 1, 1, 1], [7, 5, 4, 6], [1, 2, 3, 4]])"
    by (simp add: fst_Market_reset example_fetched_book example_reset_array)
  have g: "fetched_book (example_market no_bids_book) =
     fetched_book ((example_market no_bids_book)\<lparr>state := Some (Arr1 [9])\<rparr>)"
    by (simp add: example_fetched_book example_fetched_book_state)
  have f: "fst (Market_reset (example_market no_bids_book)) = Inl AxisError"
    by (simp add: fst_Market_reset example_fetched_book no_bids_reset_array)
  have s: "state (example_market no_bids_book) = None"
    by (simp add: example_market_def)
  show ?thesis
    using reset_depends_on_book_only [OF h] reset_depends_on_book_only [OF g] h r g f s
    by simp
qed

text \<open>
  C3 as stated fails: when the fetched book has no bids, \<^verbatim>\<open>_reset\<close> raises before the
  assignment, and two environments that held different arrays still hold them.
\<close>

theorem reset_state_retained_counterexample:
  "fetched_book
     ((example_market no_bids_book)\<lparr>state := Some (Arr2 2 [[- 1, 1], [1, 1], [1, 2]])\<rparr>) =
   fetched_book
     ((example_market no_bids_book)
        \<lparr>state := Some (Arr2 4 [[- 1, - 1, 1, 1], [7, 5, 4, 6], [1, 2, 3, 4]])\<rparr>) \<and>
   state (snd (Market_reset
     ((example_market no_bids_book)\<lparr>state := Some (Arr2 2 [[- 1, 1], [1, 1], [1, 2]])\<rparr>))) =
     Some (Arr2 2 [[- 1, 1], [1, 1], [1, 2]]) \<and>
   state (snd (Market_reset
     ((example_market no_bids_book)
        \<lparr>state := Some (Arr2 4 [[- 1, - 1, 1, 1], [7, 5, 4, 6], [1, 2, 3, 4]])\<rparr>))) =
     Some (Arr2 4 [[- 1, - 1, 1, 1], [7, 5, 4, 6], [1, 2, 3, 4]]) \<and>
   Some (Arr2 2 [[- 1, 1], [1, 1], [1, 2]]) \<noteq>
     Some (Arr2 4 [[- 1, - 1, 1, 1], [7, 5, 4, 6], [1, 2, 3, 4]])"
  by (simp add: state_Market_reset example_fetched_book_state no_bids_reset_array)

text \<open>
  C5. For every action \<^verbatim>\<open>_step\<close> returns \<^verbatim>\<open>None\<close> and leaves the environment, with
  all its attributes, as it was.
\<close>

theorem step_changes_nothing:
  "Market_step self action = (Inr PyNone, self) \<and>
   state (snd (Market_step self action)) = state self \<and>
   exchange (snd (Market_step self action)) = exchange self"
  by (simp add: Market_step_def)

text \<open>
  C4 (as the code has it). \<^verbatim>\<open>OrderSpace.contains\<close>, \<^verbatim>\<open>to_jsonable\<close> and
  \<^verbatim>\<open>from_jsonable\<close> raise NotImplementedError; \<^verbatim>\<open>Market._step\<close>, \<^verbatim>\<open>DRQN.train\<close> and
  \<^verbatim>\<open>DRQN.play\<close> raise nothing: they return \<^verbatim>\<open>None\<close> and change nothing.
\<close>

theorem unimplemented_methods:
  "fst (OrderSpace_contains space x) = Inl NotImplementedError \<and>
   fst (OrderSpace_to_jsonable space sample_n) = Inl NotImplementedError \<and>
   fst (OrderSpace_from_jsonable space sample_n') = Inl NotImplementedError \<and>
   Market_step self action = (Inr PyNone, self) \<and>
   DRQN_train agent n_epochs batch_size = (Inr PyNone, agent) \<and>
   DRQN_play agent n_epochs = (Inr PyNone, agent)"
  by (simp add: OrderSpace_contains_def OrderSpace_to_jsonable_def OrderSpace_from_jsonable_def
        Market_step_def DRQN_train_def DRQN_play_def)

text \<open>
  C4 as stated fails: \<^verbatim>\<open>_step\<close>, \<^verbatim>\<open>train\<close> and \<^verbatim>\<open>play\<close> do not raise
  NotImplementedError.
\<close>

theorem step_not_implemented_counterexample:
  "fst (Market_step (example_market example_book) (0 :: nat)) \<noteq> Inl NotImplementedError \<and>
   fst (DRQN_train DRQN 500 32) \<noteq> Inl NotImplementedError \<and>
   fst (DRQN_play DRQN 1) \<noteq> Inl NotImplementedError"
  by (simp add: Market_step_def DRQN_train_def DRQN_play_def)



section \<open>Sampling and seeding\<close>

lemma uniform_in_range:
  "0 \<le> m \<Longrightarrow> 0 \<le> u \<Longrightarrow> u < 1 \<Longrightarrow> 0 \<le> uniform 0 m u \<and> uniform 0 m u \<le> m"
  by (simp add: uniform_def mult_left_le)

text \<open>
  C9. For \<open>max_amount \<ge> 0\<close> and any draws of the generator, \<^verbatim>\<open>sample\<close> returns the
  five-element list \<^verbatim>\<open>[place_order, type, side, amount, price]\<close> with the amount in
  \<open>[0, max_amount]\<close>, the side \<^verbatim>\<open>'buy'\<close> or \<^verbatim>\<open>'sell'\<close>, the price in \<open>[-1, 0)\<close> for
  \<^verbatim>\<open>'buy'\<close> and in \<open>(0, 1]\<close> for \<^verbatim>\<open>'sell'\<close>, and the sign of the price equal to
  \<^verbatim>\<open>side_sign[side]\<close>.
\<close>

theorem sample_in_space:
  assumes "0 \<le> OrderSpace.max_amount space" and "draws_ok d"
  shows "\<exists>po ty sd am pr sg.
           fst (OrderSpace_sample d space) =
             Inr [PyBool po, PyStr ty, PyStr sd, PyFloat am, PyFloat pr] \<and>
           0 \<le> am \<and> am \<le> OrderSpace.max_amount space \<and>
           (sd = ''buy'' \<or> sd = ''sell'') \<and>
           (sd = ''buy'' \<longrightarrow> - 1 \<le> pr \<and> pr < 0) \<and>
           (sd = ''sell'' \<longrightarrow> 0 < pr \<and> pr \<le> 1) \<and>
           side_sign sd = Some sg \<and> sgn pr = real_of_int sg"
proof -
  from assms(2) have a: "0 \<le> amount_sample d" "amount_sample d < 1"
    and p: "0 \<le> price_sample d" "price_sample d < 1"
    and i: "side_index d = 0 \<or> side_index d = 1"
    by (auto simp add: draws_ok_def)
  note am = uniform_in_range [OF assms(1) a]
  from i show ?thesis
  proof
    assume "side_index d = 0"
    with am p show ?thesis
      by (simp add: OrderSpace_sample_def choice_def side_sign_def Let_def)
  next
    assume "side_index d = 1"
    with am p show ?thesis
      by (simp add: OrderSpace_sample_def choice_def side_sign_def Let_def)
  qed
qed

theorem sample_in_space_witness:
  "0 \<le> OrderSpace.max_amount (OrderSpace_init 1) \<and> draws_ok example_draws \<and>
   fst (OrderSpace_sample example_draws (OrderSpace_init 1)) =
     Inr [PyBool True, PyStr ''limit'', PyStr ''buy'', PyFloat (1 / 2), PyFloat (- (3 / 4))] \<and>
   (\<exists>po ty sd am pr sg.
      fst (OrderSpace_sample example_draws (OrderSpace_init 1)) =
        Inr [PyBool po, PyStr ty, PyStr sd, PyFloat am, PyFloat pr] \<and>
      0 \<le> am \<and> am \<le> 1 \<and> (sd = ''buy'' \<or> sd = ''sell'') \<and>
      (sd = ''buy'' \<longrightarrow> - 1 \<le> pr \<and> pr < 0) \<and> (sd = ''sell'' \<longrightarrow> 0 < pr \<and> pr \<le> 1) \<and>
      side_sign sd = Some sg \<and> sgn pr = real_of_int sg)"
proof -
  have m: "0 \<le> OrderSpace.max_amount (OrderSpace_init 1)"
    by (simp add: OrderSpace_init_def)
  have d: "draws_ok example_draws"
    by (simp add: draws_ok_def example_draws_def)
  have e: "fst (OrderSpace_sample example_draws (OrderSpace_init 1)) =
     Inr [PyBool True, PyStr ''limit'', PyStr ''buy'', PyFloat (1 / 2), PyFloat (- (3 / 4))]"
    by (simp add: OrderSpace_sample_def example_draws_def OrderSpace_init_def choice_def
          uniform_def side_sign_def Let_def)
  have o: "OrderSpace.max_amount (OrderSpace_init 1) = 1"
    by (simp add: OrderSpace_init_def)
  show ?thesis
    using sample_in_space [OF m d] m d e unfolding o by blast
qed

text \<open>
  C6 (as the code has it). For a seed that is \<^verbatim>\<open>None\<close> or a non-negative integer,
  \<^verbatim>\<open>_seed\<close> assigns the generator to \<^verbatim>\<open>self.np_random\<close> and returns the one-element
  list of the seed used; for an integer seed with \<open>0 \<le> seed < 2^64\<close> that list is
  \<^verbatim>\<open>[seed]\<close>. A negative seed raises gym's error and assigns nothing.
\<close>

theorem seed_returns_seed_used:
  "(seed = None \<or> (\<exists>n. seed = Some n \<and> 0 \<le> n) \<longrightarrow>
      Market_seed urandom self seed =
        (Inr [create_seed urandom seed],
         self\<lparr>np_random := Some (RandomState (create_seed urandom seed))\<rparr>)) \<and>
   (\<forall>n. seed = Some n \<and> 0 \<le> n \<and> n < 2 ^ 64 \<longrightarrow> create_seed urandom seed = n) \<and>
   (\<forall>n. seed = Some n \<and> n < 0 \<longrightarrow> Market_seed urandom self seed = (Inl GymError, self))"
  by (auto simp add: Market_seed_def seeding_np_random_def create_seed_def Let_def)

theorem seed_returns_seed_used_witness:
  "Market_seed 7 (example_market example_book) (Some 42) =
     (Inr [42], (example_market example_book)\<lparr>np_random := Some (RandomState 42)\<rparr>) \<and>
   Market_seed 7 (example_market example_book) None =
     (Inr [7], (example_market example_book)\<lparr>np_random := Some (RandomState 7)\<rparr>) \<and>
   Market_seed 7 (example_market example_book) (Some (- 1)) =
     (Inl GymError, example_market example_book)"
  using seed_returns_seed_used [of "Some 42" 7 "example_market example_book"]
    seed_returns_seed_used [of None 7 "example_market example_book"]
    seed_returns_seed_used [of "Some (- 1)" 7 "example_market example_book"]
  by (simp add: create_seed_def)

text \<open>
  C6 as stated fails: the integer seed \<open>-1\<close> raises, and the integer seed \<open>2^64\<close>
  returns \<^verbatim>\<open>[0]\<close>.
\<close>

theorem seed_not_returned_counterexample:
  "fst (Market_seed 7 (example_market example_book) (Some (- 1))) = Inl GymError \<and>
   fst (Market_seed 7 (example_market example_book) (Some (2 ^ 64))) = Inr [0] \<and>
   [0] \<noteq> [2 ^ 64 :: int]"
  by (simp add: Market_seed_def seeding_np_random_def create_seed_def)



section \<open>Calls on the exchange and failing resets\<close>

lemma calls_fetch_order_book:
  "calls (snd (fetch_order_book ex s)) = calls ex @ [FetchOrderBook s]"
  by (simp add: fetch_order_book_def)

lemma Market_seed_None:
  "Market_seed urandom self None = (Inr [urandom], self\<lparr>np_random := Some (RandomState urandom)\<rparr>)"
  by (simp add: Market_seed_def seeding_np_random_def create_seed_def)

lemma exchange_after_reset:
  "Market_reset self = (r, self') \<Longrightarrow>
     exchange self' = snd (fetch_order_book (exchange self) (symbol self))"
  using exchange_Market_reset [of self] by simp

lemma snd_Market_init:
  "snd (Market_init urandom ex s) =
     snd (fetch_order_book (snd (load_markets ex)) s)"
  by (auto simp add: Market_init_def Market_seed_None Let_def
        split: prod.splits sum.splits dest!: exchange_after_reset)

text \<open>
  C7 (as the code has it). The program calls two methods of the exchange:
  \<^verbatim>\<open>load_markets()\<close>, once in \<^verbatim>\<open>Market.__init__\<close>, and \<^verbatim>\<open>fetch_order_book(symbol)\<close>,
  exactly once in each \<^verbatim>\<open>_reset\<close> and with the environment's symbol. So a reset adds
  exactly that one call, the constructor makes exactly the two calls in this order, and
  \<^verbatim>\<open>_seed\<close> and \<^verbatim>\<open>_step\<close> call nothing on the exchange.
\<close>

theorem exchange_calls:
  "calls (exchange (snd (Market_reset self))) =
     calls (exchange self) @ [FetchOrderBook (symbol self)] \<and>
   calls (snd (Market_init urandom ex s)) = calls ex @ [LoadMarkets, FetchOrderBook s] \<and>
   exchange (snd (Market_seed urandom self seed)) = exchange self \<and>
   exchange (snd (Market_step self action)) = exchange self"
proof (intro conjI)
  show "calls (exchange (snd (Market_reset self))) =
     calls (exchange self) @ [FetchOrderBook (symbol self)]"
    by (simp only: exchange_Market_reset calls_fetch_order_book)
  show "calls (snd (Market_init urandom ex s)) = calls ex @ [LoadMarkets, FetchOrderBook s]"
    by (simp add: snd_Market_init calls_fetch_order_book load_markets_def)
  show "exchange (snd (Market_seed urandom self seed)) = exchange self"
    by (simp add: Market_seed_def split: sum.splits prod.splits)
  show "exchange (snd (Market_step self action)) = exchange self"
    by (simp add: Market_step_def)
qed

text \<open>
  C7 as stated fails: constructing the environment calls \<^verbatim>\<open>load_markets\<close> on the
  exchange, a method other than \<^verbatim>\<open>fetch_order_book\<close>.
\<close>

theorem load_markets_called_counterexample:
  "calls (snd (Market_init 7 (example_exchange example_book) ''BTC/USD'')) =
     [LoadMarkets, FetchOrderBook ''BTC/USD''] \<and>
   LoadMarkets \<noteq> FetchOrderBook ''BTC/USD''"
  by (simp add: snd_Market_init calls_fetch_order_book load_markets_def example_exchange_def)

lemma reset_array_empty:
  "(bids ob = [] \<and> (asks ob = [] \<or> uniform_rows (asks ob))) \<or>
   (uniform_rows (bids ob) \<and> asks ob = []) \<Longrightarrow> reset_array ob = Inl AxisError"
  by (auto simp add: reset_array_def np_array_cases uniform_rows_def bind_err_def Let_def
        concat_sign simp del: One_nat_def)

lemma not_uniform_empty: "\<not> uniform_rows []"
  by (simp add: uniform_rows_def)

text \<open>
  C10 (as the code has it). \<^verbatim>\<open>_reset\<close> returns exactly when the fetched order book has
  at least one bid and at least one ask and all entries, bids and asks alike, have one
  common length (two for pairs). If the bids or the asks are empty it raises and
  \<^verbatim>\<open>self.state\<close> is as before; when the other list is empty or well-formed the error is
  the axis error of the concatenation with the sign column. Whenever \<^verbatim>\<open>_reset\<close>
  raises, \<^verbatim>\<open>self.state\<close> is as before.
\<close>

theorem reset_succeeds_iff:
  "((\<exists>a. fst (Market_reset self) = Inr a) \<longleftrightarrow>
      uniform_rows (bids (fetched_book self)) \<and> uniform_rows (asks (fetched_book self)) \<and>
      length (hd (bids (fetched_book self))) = length (hd (asks (fetched_book self)))) \<and>
   (bids (fetched_book self) = [] \<or> asks (fetched_book self) = [] \<longrightarrow>
      (\<exists>e. fst (Market_reset self) = Inl e) \<and>
      state (snd (Market_reset self)) = state self) \<and>
   ((bids (fetched_book self) = [] \<and>
       (asks (fetched_book self) = [] \<or> uniform_rows (asks (fetched_book self)))) \<or>
    (uniform_rows (bids (fetched_book self)) \<and> asks (fetched_book self) = []) \<longrightarrow>
      fst (Market_reset self) = Inl AxisError) \<and>
   (\<forall>e. fst (Market_reset self) = Inl e \<longrightarrow> state (snd (Market_reset self)) = state self)"
proof (intro conjI)
  show "(\<exists>a. fst (Market_reset self) = Inr a) \<longleftrightarrow>
      uniform_rows (bids (fetched_book self)) \<and> uniform_rows (asks (fetched_book self)) \<and>
      length (hd (bids (fetched_book self))) = length (hd (asks (fetched_book self)))"
    by (simp only: fst_Market_reset reset_array_succeeds_iff)
  show "bids (fetched_book self) = [] \<or> asks (fetched_book self) = [] \<longrightarrow>
      (\<exists>e. fst (Market_reset self) = Inl e) \<and>
      state (snd (Market_reset self)) = state self"
  proof
    assume "bids (fetched_book self) = [] \<or> asks (fetched_book self) = []"
    then have "\<not> uniform_rows (bids (fetched_book self)) \<or>
               \<not> uniform_rows (asks (fetched_book self))"
      using not_uniform_empty by auto
    then obtain e where "reset_array (fetched_book self) = Inl e"
      using reset_array_fails by blast
    then show "(\<exists>e. fst (Market_reset self) = Inl e) \<and>
      state (snd (Market_reset self)) = state self"
      by (simp add: fst_Market_reset state_Market_reset)
  qed
  show "(bids (fetched_book self) = [] \<and>
       (asks (fetched_book self) = [] \<or> uniform_rows (asks (fetched_book self)))) \<or>
    (uniform_rows (bids (fetched_book self)) \<and> asks (fetched_book self) = []) \<longrightarrow>
      fst (Market_reset self) = Inl AxisError"
    using reset_array_empty [of "fetched_book self"] by (simp only: fst_Market_reset) blast
  show "\<forall>e. fst (Market_reset self) = Inl e \<longrightarrow> state (snd (Market_reset self)) = state self"
    by (simp add: fst_Market_reset state_Market_reset)
qed

lemma triple_reset_array:
  "reset_array triple_book = Inr (Arr2 2 [[- 1, 1], [3, 6], [2, 5], [1, 4]])"
  by (simp add: reset_array_def triple_book_def np_array_def bind_err_def ones_def rot90_def)

theorem reset_succeeds_iff_witness:
  "(\<exists>a. fst (Market_reset (example_market example_book)) = Inr a) \<and>
   uniform_rows (bids (fetched_book (example_market example_book))) \<and>
   uniform_rows (asks (fetched_book (example_market example_book))) \<and>
   bids (fetched_book ((example_market no_bids_book)\<lparr>state := Some (Arr1 [9])\<rparr>)) = [] \<and>
   fst (Market_reset ((example_market no_bids_book)\<lparr>state := Some (Arr1 [9])\<rparr>)) = Inl AxisError \<and>
   state (snd (Market_reset ((example_market no_bids_book)\<lparr>state := Some (Arr1 [9])\<rparr>))) =
     Some (Arr1 [9])"
proof -
  have f: "fetched_book ((example_market no_bids_book)\<lparr>state := Some (Arr1 [9])\<rparr>) = no_bids_book"
    by (simp add: fetched_book_def fetch_order_book_def example_market_def example_exchange_def)
  have u: "uniform_rows (bids (fetched_book (example_market example_book)))"
    "uniform_rows (asks (fetched_book (example_market example_book)))"
    "length (hd (bids (fetched_book (example_market example_book)))) =
     length (hd (asks (fetched_book (example_market example_book))))"
    by (simp_all add: example_fetched_book example_book_def uniform_rows_def)
  have n: "bids no_bids_book = []" "uniform_rows (asks no_bids_book)"
    by (simp_all add: no_bids_book_def uniform_rows_def)
  show ?thesis
    using reset_succeeds_iff [of "example_market example_book"]
      reset_succeeds_iff [of "(example_market no_bids_book)\<lparr>state := Some (Arr1 [9])\<rparr>"]
      u n
    by (simp add: f)
qed

text \<open>
  C10 as stated fails: a book whose entries are triples, not pairs, is accepted, and the
  array returned has four rows.
\<close>

theorem reset_accepts_triples_counterexample:
  "fst (Market_reset (example_market triple_book)) =
     Inr (Arr2 2 [[- 1, 1], [3, 6], [2, 5], [1, 4]]) \<and>
   \<not> pair_entries (bids triple_book) \<and> \<not> pair_entries (asks triple_book)"
  by (simp add: fst_Market_reset example_fetched_book triple_reset_array)
     (simp add: pair_entries_def triple_book_def)


end
